theory Spec2Isabelle
  imports Complex_Main
begin

section \<open>Text helpers used by the dashboard\<close>

text \<open>
  A Python \<open>str\<close> is modelled as a \<open>string\<close>, one \<open>char\<close> per code point; the
  alphabet of the model is the 256 characters of \<open>char\<close>, read as U+0000 .. U+00FF.
  \<open>isspace\<close> is the whitespace test shared by \<open>str.strip()\<close> and by \<open>\s\<close> in a
  \<open>str\<close> pattern of \<open>re\<close>: tab .. carriage return, the four separators U+001C .. U+001F,
  the space, U+0085 and U+00A0.
\<close>

definition isspace :: "char \<Rightarrow> bool" where
  "isspace c =
     (let n = (of_char c :: nat)
      in (9 \<le> n \<and> n \<le> 13) \<or> (28 \<le> n \<and> n \<le> 32) \<or> n = 133 \<or> n = 160)"

text \<open>\<open>str.strip()\<close>: whitespace removed at both ends.\<close>

definition str_strip :: "string \<Rightarrow> string" where
  "str_strip s = rev (dropWhile isspace (rev (dropWhile isspace s)))"

text \<open>The character class \<open>[.!?]\<close> of the sentence pattern.\<close>

definition sentence_end :: "char \<Rightarrow> bool" where
  "sentence_end c = (c = CHR ''.'' \<or> c = CHR ''!'' \<or> c = CHR ''?'')"

fun starts_with_space :: "string \<Rightarrow> bool" where
  "starts_with_space [] = False"
| "starts_with_space (d # ds) = isspace d"

text \<open>
  \<open>re.split(r'[.!?]\s+', s)\<close>: the text is scanned from the left; at a sentence-end
  character followed by whitespace the current piece is closed, the whole run of
  whitespace is consumed (\<open>\s+\<close> is greedy) and scanning resumes behind it. The
  result always has at least one piece; a match at the very end leaves an empty last
  piece.
\<close>

fun push_char :: "char \<Rightarrow> string list \<Rightarrow> string list" where
  "push_char c [] = [[c]]"
| "push_char c (s # ss) = (c # s) # ss"

function re_split :: "string \<Rightarrow> string list" where
  "re_split [] = [[]]"
| "re_split (c # cs) =
     (if sentence_end c \<and> starts_with_space cs
      then [] # re_split (dropWhile isspace cs)
      else push_char c (re_split cs))"
  by pat_completeness auto
termination
  by (relation "measure length") (auto simp: length_dropWhile_le less_Suc_eq_le)

text \<open>
  \<open>has_break s\<close>: the sentence pattern matches somewhere in \<open>s\<close>, that is, some
  sentence-end character of \<open>s\<close> is followed by whitespace.
\<close>

fun has_break :: "string \<Rightarrow> bool" where
  "has_break [] = False"
| "has_break (c # cs) = ((sentence_end c \<and> starts_with_space cs) \<or> has_break cs)"

section \<open>Sentence Extractor\<close>

text \<open>
  \<open>extract_first_sentence(text)\<close>, lines 36-53. The argument is a title cell: \<open>None\<close>
  is a missing value (\<open>pd.isna(text)\<close>), \<open>Some t\<close> the text \<open>t\<close>.
\<close>

definition extract_first_sentence :: "string option \<Rightarrow> string" where
  "extract_first_sentence text =
     (case text of
        None \<Rightarrow> ''''
      | Some t \<Rightarrow>
          if t = '''' then ''''
          else
            let sentences = re_split t;
                first_sentence = str_strip (sentences ! 0);
                first_sentence =
                  (if length first_sentence < 20 \<and> length sentences > 1
                   then sentences ! 0 @ ''. '' @ sentences ! 1
                   else first_sentence);
                first_sentence =
                  (if length first_sentence > 100
                   then take 97 first_sentence @ ''...''
                   else first_sentence)
            in first_sentence)"


section \<open>Numbers and their printed forms\<close>

text \<open>
  A Python \<open>int\<close> is an \<open>int\<close>; the elements of an \<open>int64\<close> column are integers
  in the 64-bit range, and arithmetic on them wraps around. A \<open>float\<close> is modelled by
  a rational, the value its shortest \<open>repr\<close> denotes (infinities and a negative
  zero in the data are not part of the model); the arithmetic of floats is a parameter of the model, see
  \<open>library\<close> below. A missing number (\<open>NaN\<close>) is \<open>None\<close>.
\<close>

datatype number = I int | F rat

fun number_value :: "number \<Rightarrow> rat" where
  "number_value (I n) = of_int n"
| "number_value (F x) = x"

text \<open>The value of an integer result stored in an \<open>int64\<close>: two's complement wrap-around.\<close>

definition wrap_int64 :: "int \<Rightarrow> int" where
  "wrap_int64 n = (n + 2 ^ 63) mod 2 ^ 64 - 2 ^ 63"

definition digit_char :: "nat \<Rightarrow> char" where
  "digit_char d = ''0123456789'' ! d"

function nat_digits :: "nat \<Rightarrow> string" where
  "nat_digits n = (if n < 10 then [digit_char n] else nat_digits (n div 10) @ [digit_char (n mod 10)])"
  by pat_completeness auto
termination
  by (relation "measure id") auto

declare nat_digits.simps [simp del]

text \<open>The \<open>,\<close> option of the format mini-language: digits grouped in threes from the right.\<close>

function comma_group :: "string \<Rightarrow> string" where
  "comma_group ds =
     (if length ds \<le> 3 then ds
      else comma_group (take (length ds - 3) ds) @ '','' @ drop (length ds - 3) ds)"
  by pat_completeness auto
termination
  by (relation "measure length") auto

declare comma_group.simps [simp del]

definition sign_str :: "bool \<Rightarrow> string" where
  "sign_str negative = (if negative then ''-'' else [])"

text \<open>\<open>str(n)\<close> and \<open>f"{n:,}"\<close> of an \<open>int\<close>.\<close>

definition int_str :: "int \<Rightarrow> string" where
  "int_str n = sign_str (n < 0) @ nat_digits (nat \<bar>n\<bar>)"

definition int_comma :: "int \<Rightarrow> string" where
  "int_comma n = sign_str (n < 0) @ comma_group (nat_digits (nat \<bar>n\<bar>))"

text \<open>
  The digits behind the decimal point of a \<open>float\<close>'s \<open>repr\<close>: the decimal expansion of
  the fraction, at most 17 digits of it, and a single \<open>0\<close> when there is none. This is
  the \<open>repr\<close> of every value below \<open>10^16\<close> with a terminating expansion, which covers
  counts and percentages rounded to two places; the exponent forms are not modelled.
\<close>

fun frac_expand :: "nat \<Rightarrow> rat \<Rightarrow> string" where
  "frac_expand 0 f = []"
| "frac_expand (Suc k) f =
     (if f = 0 then []
      else let d = nat \<lfloor>f * 10\<rfloor> in digit_char d # frac_expand k (f * 10 - of_nat d))"

definition frac_digits :: "rat \<Rightarrow> string" where
  "frac_digits f = (if f = 0 then ''0'' else frac_expand 17 f)"

text \<open>\<open>str(x)\<close> and \<open>f"{x:,}"\<close> of a \<open>float\<close>.\<close>

definition float_str :: "rat \<Rightarrow> string" where
  "float_str x =
     sign_str (x < 0) @ nat_digits (nat \<lfloor>\<bar>x\<bar>\<rfloor>) @ ''.'' @ frac_digits (\<bar>x\<bar> - of_int \<lfloor>\<bar>x\<bar>\<rfloor>)"

definition float_comma :: "rat \<Rightarrow> string" where
  "float_comma x =
     sign_str (x < 0) @ comma_group (nat_digits (nat \<lfloor>\<bar>x\<bar>\<rfloor>)) @ ''.'' @
     frac_digits (\<bar>x\<bar> - of_int \<lfloor>\<bar>x\<bar>\<rfloor>)"

text \<open>Rounding to the nearest integer, ties to even, as \<open>numpy.rint\<close> does.\<close>

definition round_half_even :: "rat \<Rightarrow> int" where
  "round_half_even x =
     (let n = \<lfloor>x\<rfloor>; d = x - of_int n
      in if d < 1 / 2 then n else if 1 / 2 < d then n + 1 else if even n then n else n + 1)"

text \<open>
  \<open>Series.round(2)\<close> on one \<open>float\<close>: the float nearest to the hundredth that
  \<open>rint(x * 100)\<close> names; \<open>mul\<close> is the product of floats.
\<close>

definition round2 :: "(rat \<Rightarrow> rat \<Rightarrow> rat) \<Rightarrow> rat \<Rightarrow> rat" where
  "round2 mul x = of_int (round_half_even (mul x 100)) / 100"

text \<open>\<open>str.lower()\<close> on the model's alphabet: A-Z and the upper-case letters of U+00C0 .. U+00DE.\<close>

definition upper_letters :: string where
  "upper_letters = ''ABCDEFGHIJKLMNOPQRSTUVWXYZ'' @
     [
      CHR 0xC0, CHR 0xC1, CHR 0xC2, CHR 0xC3, CHR 0xC4, CHR 0xC5, CHR 0xC6, CHR 0xC7, CHR 0xC8, CHR 0xC9,
      CHR 0xCA, CHR 0xCB, CHR 0xCC, CHR 0xCD, CHR 0xCE, CHR 0xCF, CHR 0xD0, CHR 0xD1, CHR 0xD2, CHR 0xD3,
      CHR 0xD4, CHR 0xD5, CHR 0xD6, CHR 0xD8, CHR 0xD9, CHR 0xDA, CHR 0xDB, CHR 0xDC, CHR 0xDD, CHR 0xDE]"

definition lower_letters :: string where
  "lower_letters = ''abcdefghijklmnopqrstuvwxyz'' @
     [
      CHR 0xE0, CHR 0xE1, CHR 0xE2, CHR 0xE3, CHR 0xE4, CHR 0xE5, CHR 0xE6, CHR 0xE7, CHR 0xE8, CHR 0xE9,
      CHR 0xEA, CHR 0xEB, CHR 0xEC, CHR 0xED, CHR 0xEE, CHR 0xEF, CHR 0xF0, CHR 0xF1, CHR 0xF2, CHR 0xF3,
      CHR 0xF4, CHR 0xF5, CHR 0xF6, CHR 0xF8, CHR 0xF9, CHR 0xFA, CHR 0xFB, CHR 0xFC, CHR 0xFD, CHR 0xFE]"

definition lower_char :: "char \<Rightarrow> char" where
  "lower_char c =
     (let n = (of_char c :: nat)
      in if (65 \<le> n \<and> n \<le> 90) \<or> (192 \<le> n \<and> n \<le> 214) \<or> (216 \<le> n \<and> n \<le> 222)
         then (case map_of (zip upper_letters lower_letters) c of None \<Rightarrow> c | Some d \<Rightarrow> d)
         else c)"

definition py_lower :: "string \<Rightarrow> string" where
  "py_lower s = map lower_char s"

section \<open>Frames\<close>

text \<open>
  The values an \<open>object\<close> column holds: a missing value (\<open>NaN\<close>, \<open>NaT\<close>, \<open>None\<close>), a
  number, a text, or a timestamp (nanoseconds since the epoch).
\<close>

datatype cell = NaN | Num number | Str string | Stamp int

text \<open>
  A pandas \<open>Series\<close> with its dtype: \<open>int64\<close> (no missing values), \<open>float64\<close>
  (\<open>None\<close> is \<open>NaN\<close>), \<open>datetime64[ns]\<close> (\<open>None\<close> is \<open>NaT\<close>) or \<open>object\<close>. A
  \<open>DataFrame\<close> is the list of its columns in order, each with its name; the frames of
  this program have pairwise distinct column names and columns of one length.
\<close>

datatype series =
    Int64 "int list"
  | Float64 "rat option list"
  | Datetime64 "int option list"
  | Object "cell list"

type_synonym dataframe = "(string \<times> series) list"

datatype py_error = KeyError | TypeError | ValueError | AttributeError | ReError

definition bind_result :: "'e + 'a \<Rightarrow> ('a \<Rightarrow> 'e + 'b) \<Rightarrow> 'e + 'b" where
  "bind_result r f = (case r of Inl e \<Rightarrow> Inl e | Inr x \<Rightarrow> f x)"

text \<open>Applying a function that may raise to every element; the first error wins.\<close>

fun map_result :: "('a \<Rightarrow> 'e + 'b) \<Rightarrow> 'a list \<Rightarrow> 'e + 'b list" where
  "map_result f [] = Inr []"
| "map_result f (x # xs) =
     (case f x of
        Inl e \<Rightarrow> Inl e
      | Inr y \<Rightarrow> (case map_result f xs of Inl e \<Rightarrow> Inl e | Inr ys \<Rightarrow> Inr (y # ys)))"

text \<open>The elements of a series as Python objects.\<close>

fun float_cell :: "rat option \<Rightarrow> cell" where
  "float_cell None = NaN"
| "float_cell (Some x) = Num (F x)"

fun stamp_cell :: "int option \<Rightarrow> cell" where
  "stamp_cell None = NaN"
| "stamp_cell (Some t) = Stamp t"

fun series_cells :: "series \<Rightarrow> cell list" where
  "series_cells (Int64 ns) = map (\<lambda>n. Num (I n)) ns"
| "series_cells (Float64 xs) = map float_cell xs"
| "series_cells (Datetime64 ts) = map stamp_cell ts"
| "series_cells (Object cs) = cs"

text \<open>\<open>name in df.columns\<close>, \<open>df[name]\<close> and \<open>len(df)\<close>.\<close>

definition in_columns :: "string \<Rightarrow> dataframe \<Rightarrow> bool" where
  "in_columns name df = (name \<in> set (map fst df))"

definition getitem :: "dataframe \<Rightarrow> string \<Rightarrow> py_error + series" where
  "getitem df name = (case map_of df name of None \<Rightarrow> Inl KeyError | Some s \<Rightarrow> Inr s)"

definition nrows :: "dataframe \<Rightarrow> nat" where
  "nrows df = (case df of [] \<Rightarrow> 0 | (name, s) # rest \<Rightarrow> length (series_cells s))"

text \<open>Boolean-mask indexing \<open>df[mask]\<close>: the rows whose mask entry is true, in order.\<close>

definition select_rows :: "bool list \<Rightarrow> 'a list \<Rightarrow> 'a list" where
  "select_rows keep xs = map snd (filter fst (zip keep xs))"

fun series_select :: "bool list \<Rightarrow> series \<Rightarrow> series" where
  "series_select keep (Int64 ns) = Int64 (select_rows keep ns)"
| "series_select keep (Float64 xs) = Float64 (select_rows keep xs)"
| "series_select keep (Datetime64 ts) = Datetime64 (select_rows keep ts)"
| "series_select keep (Object cs) = Object (select_rows keep cs)"

definition frame_select :: "bool list \<Rightarrow> dataframe \<Rightarrow> dataframe" where
  "frame_select keep df = map (\<lambda>(name, s). (name, series_select keep s)) df"

text \<open>
  What pandas and Python do with a single value or pattern is a parameter of the model:
  \<open>parse_number\<close> reads a text as a number (\<open>None\<close>: the text is not a number),
  \<open>as_timestamp\<close> converts a text or a number to a timestamp (\<open>None\<close>: the value
  cannot be converted), \<open>py_str\<close> is \<open>str()\<close> of a value that is not a text, and
  \<open>regex_search pat\<close> is the search of \<open>re.compile(pat, re.IGNORECASE)\<close> in a text
  (\<open>None\<close>: \<open>re.compile\<close> raises \<open>re.error\<close>). The arithmetic of \<open>float64\<close>
  is a parameter as well, so that nothing depends on how it rounds: \<open>float_sum\<close> is the
  sum numpy computes of a list of floats, \<open>float_div\<close> and \<open>float_mul\<close> are the
  quotient and the product of two floats.
\<close>

record library =
  parse_number :: "string \<Rightarrow> number option"
  as_timestamp :: "cell \<Rightarrow> int option"
  py_str :: "cell \<Rightarrow> string"
  regex_search :: "string \<Rightarrow> (string \<Rightarrow> bool) option"
  float_sum :: "rat list \<Rightarrow> rat"
  float_div :: "rat \<Rightarrow> rat \<Rightarrow> rat"
  float_mul :: "rat \<Rightarrow> rat \<Rightarrow> rat"

text \<open>The values of a numeric column; any other dtype is a \<open>TypeError\<close> in arithmetic.\<close>

fun num_values :: "series \<Rightarrow> py_error + rat option list" where
  "num_values (Int64 ns) = Inr (map (\<lambda>n. Some (of_int n)) ns)"
| "num_values (Float64 xs) = Inr xs"
| "num_values (Datetime64 ts) = Inl TypeError"
| "num_values (Object cs) = Inl TypeError"

text \<open>
  \<open>Series.mean()\<close> and \<open>Series.sum()\<close> with their default \<open>skipna=True\<close>: the
  reduction runs over the values that are present; the mean of no value is \<open>NaN\<close>, the
  sum of no value is zero. The mean is a float also for an \<open>int64\<close> column (the sum
  of the values as floats, divided by their number); the sum of an \<open>int64\<close> column
  is an \<open>int64\<close> and wraps around.
\<close>

fun present :: "'a option list \<Rightarrow> 'a list" where
  "present [] = []"
| "present (None # xs) = present xs"
| "present (Some x # xs) = x # present xs"

definition mean_skipna :: "library \<Rightarrow> rat option list \<Rightarrow> rat option" where
  "mean_skipna L xs =
     (let vs = present xs
      in if vs = [] then None else Some (float_div L (float_sum L vs) (of_nat (length vs))))"

definition series_mean :: "library \<Rightarrow> series \<Rightarrow> py_error + rat option" where
  "series_mean L s = bind_result (num_values s) (\<lambda>xs. Inr (mean_skipna L xs))"

fun series_sum :: "library \<Rightarrow> series \<Rightarrow> py_error + number" where
  "series_sum L (Int64 ns) = Inr (I (wrap_int64 (sum_list ns)))"
| "series_sum L (Float64 xs) = Inr (F (float_sum L (present xs)))"
| "series_sum L (Datetime64 ts) = Inl TypeError"
| "series_sum L (Object cs) = Inl TypeError"

text \<open>Multiplying a possibly missing float: \<open>NaN * 100\<close> is \<open>NaN\<close>.\<close>

definition times100 :: "library \<Rightarrow> rat option \<Rightarrow> rat option" where
  "times100 L v = map_option (\<lambda>x. float_mul L x 100) v"

text \<open>
  \<open>s * 100\<close> on one element of the column \<open>s\<close>: the product stays an \<open>int64\<close>
  in an \<open>int64\<close> column.
\<close>

fun percent_of :: "library \<Rightarrow> series \<Rightarrow> rat option \<Rightarrow> rat option" where
  "percent_of L (Int64 ns) v = map_option (\<lambda>x. of_int (wrap_int64 (\<lfloor>x\<rfloor> * 100))) v"
| "percent_of L (Float64 xs) v = times100 L v"
| "percent_of L (Datetime64 ts) v = times100 L v"
| "percent_of L (Object cs) v = times100 L v"

text \<open>
  \<open>df[name] = s\<close>: every column of that name is replaced, and a new column is added
  at the end when there is none. \<open>duplicated name df\<close>: the frame has more than one
  column of that name, and \<open>df[name]\<close> is a frame, not a series.
\<close>

definition setitem :: "string \<Rightarrow> series \<Rightarrow> dataframe \<Rightarrow> dataframe" where
  "setitem name s df =
     (if in_columns name df
      then map (\<lambda>(col, old). if col = name then (col, s) else (col, old)) df
      else df @ [(name, s)])"

definition duplicated :: "string \<Rightarrow> dataframe \<Rightarrow> bool" where
  "duplicated name df = (1 < count_list (map fst df) name)"

section \<open>Data Loader\<close>

text \<open>
  \<open>pd.to_numeric(s, errors='coerce')\<close>. A numeric column is returned as it is and a
  datetime column is viewed as its \<open>int64\<close> nanoseconds (\<open>NaT\<close> is the least
  \<open>int64\<close>). In an object column a missing cell stays missing, a number stays, a
  text that parses becomes its number, and every cell that cannot be converted becomes
  missing; the result is \<open>int64\<close> when every cell gave an \<open>int\<close>, else \<open>float64\<close>.
\<close>

fun coerce_cell :: "library \<Rightarrow> cell \<Rightarrow> number option" where
  "coerce_cell L NaN = None"
| "coerce_cell L (Num n) = Some n"
| "coerce_cell L (Str s) = parse_number L s"
| "coerce_cell L (Stamp t) = None"

fun as_int :: "number option \<Rightarrow> int option" where
  "as_int (Some (I n)) = Some n"
| "as_int (Some (F x)) = None"
| "as_int None = None"

fun to_numeric_coerce :: "library \<Rightarrow> series \<Rightarrow> series" where
  "to_numeric_coerce L (Int64 ns) = Int64 ns"
| "to_numeric_coerce L (Float64 xs) = Float64 xs"
| "to_numeric_coerce L (Datetime64 ts) =
     Int64 (map (\<lambda>t. case t of None \<Rightarrow> - (2 ^ 63) | Some n \<Rightarrow> n) ts)"
| "to_numeric_coerce L (Object cs) =
     (let ns = map (coerce_cell L) cs
      in if list_all (\<lambda>n. as_int n \<noteq> None) ns
         then Int64 (present (map as_int ns))
         else Float64 (map (map_option number_value) ns))"

text \<open>
  \<open>pd.to_datetime(s)\<close> with its default \<open>errors='raise'\<close>: a missing cell becomes
  \<open>NaT\<close>, a timestamp stays, any other cell is converted, and a cell that cannot be
  converted raises.
\<close>

fun datetime_cell :: "library \<Rightarrow> cell \<Rightarrow> py_error + int option" where
  "datetime_cell L NaN = Inr None"
| "datetime_cell L (Stamp t) = Inr (Some t)"
| "datetime_cell L (Num n) =
     (case as_timestamp L (Num n) of None \<Rightarrow> Inl ValueError | Some t \<Rightarrow> Inr (Some t))"
| "datetime_cell L (Str s) =
     (case as_timestamp L (Str s) of None \<Rightarrow> Inl ValueError | Some t \<Rightarrow> Inr (Some t))"

definition to_datetime :: "library \<Rightarrow> series \<Rightarrow> py_error + series" where
  "to_datetime L s =
     (case s of
        Datetime64 ts \<Rightarrow> Inr (Datetime64 ts)
      | _ \<Rightarrow> bind_result (map_result (datetime_cell L) (series_cells s)) (\<lambda>ts. Inr (Datetime64 ts)))"

text \<open>The argument \<open>extract_first_sentence\<close> receives for one cell of the title column.\<close>

fun title_text :: "library \<Rightarrow> cell \<Rightarrow> string option" where
  "title_text L NaN = None"
| "title_text L (Str s) = Some s"
| "title_text L (Num n) = Some (py_str L (Num n))"
| "title_text L (Stamp t) = Some (py_str L (Stamp t))"

text \<open>
  \<open>df[name] = convert(df[name])\<close> for a column that is present. When two columns
  have the name, \<open>df[name]\<close> is a frame and the conversion raises.
\<close>

definition assign_converted ::
  "string \<Rightarrow> (series \<Rightarrow> py_error + series) \<Rightarrow> py_error \<Rightarrow> dataframe \<Rightarrow> py_error + dataframe" where
  "assign_converted name convert on_frame df =
     (case map_of df name of
        None \<Rightarrow> Inr df
      | Some s \<Rightarrow>
          if duplicated name df then Inl on_frame
          else bind_result (convert s) (\<lambda>converted. Inr (setitem name converted df)))"

text \<open>\<open>df.columns = [str(col).lower().strip() for col in df.columns]\<close>, line 62.\<close>

definition normalize_columns :: "dataframe \<Rightarrow> dataframe" where
  "normalize_columns raw = map (\<lambda>(col, s). (str_strip (py_lower col), s)) raw"

text \<open>
  \<open>load_and_process_data(uploaded_file)\<close>, lines 55-91. The argument \<open>sheet\<close> is the
  outcome of \<open>pd.read_excel(uploaded_file, sheet_name='All posts', header=1)\<close>: the
  frame read, its column names already texts, or the exception raised. The result is
  the frame returned, \<open>None\<close> where the function returns \<open>None\<close> (after
  \<open>st.error\<close>): for a sheet that could not be read, for a missing title column, and
  for every exception raised inside the \<open>try\<close> block. Two headers that normalise to
  the name of a column the loader reads raise there: \<open>apply\<close>, \<open>to_datetime\<close> and
  \<open>to_numeric\<close> are given a frame instead of a series.
\<close>

definition load_and_process_data :: "library \<Rightarrow> py_error + dataframe \<Rightarrow> dataframe option" where
  "load_and_process_data L sheet =
     (case sheet of
        Inl e \<Rightarrow> None
      | Inr raw \<Rightarrow>
          let df = normalize_columns raw
          in case map_of df ''post title'' of
               None \<Rightarrow> None
             | Some titles \<Rightarrow>
                 if duplicated ''post title'' df then None
                 else
                   let df = setitem ''post title (first sentence)''
                              (Object (map (\<lambda>c. Str (extract_first_sentence (title_text L c)))
                                           (series_cells titles))) df;
                       converted =
                         bind_result (assign_converted ''created date'' (to_datetime L) ValueError df) (\<lambda>df.
                         bind_result (assign_converted ''engagement rate''
                                        (\<lambda>s. Inr (to_numeric_coerce L s)) TypeError df) (\<lambda>df.
                         bind_result (assign_converted ''click through rate (ctr)''
                                        (\<lambda>s. Inr (to_numeric_coerce L s)) TypeError df) (\<lambda>df.
                           assign_converted ''impressions''
                             (\<lambda>s. Inr (to_numeric_coerce L s)) TypeError df)))
                   in case converted of Inl e \<Rightarrow> None | Inr df \<Rightarrow> Some df)"

section \<open>Metrics Summarizer\<close>

text \<open>
  \<open>create_summary_metrics(df)\<close>, lines 93-124: the four numbers computed in lines
  95-98, which the four metric cards then show. An average is \<open>None\<close> when Python
  computes \<open>NaN\<close>.
\<close>

record summary_metrics =
  total_posts :: nat
  avg_engagement :: "rat option"
  avg_ctr :: "rat option"
  total_impressions :: number

definition average_percent :: "library \<Rightarrow> dataframe \<Rightarrow> string \<Rightarrow> py_error + rat option" where
  "average_percent L df name =
     (if in_columns name df
      then bind_result (getitem df name)
             (\<lambda>s. bind_result (series_mean L s) (\<lambda>m. Inr (times100 L m)))
      else Inr (Some 0))"

definition create_summary_metrics :: "library \<Rightarrow> dataframe \<Rightarrow> py_error + summary_metrics" where
  "create_summary_metrics L df =
     bind_result (average_percent L df ''engagement rate'') (\<lambda>avg_e.
     bind_result (average_percent L df ''click through rate (ctr)'') (\<lambda>avg_c.
     bind_result (if in_columns ''impressions'' df
                  then bind_result (getitem df ''impressions'') (series_sum L)
                  else Inr (I 0)) (\<lambda>total.
     Inr \<lparr>total_posts = nrows df, avg_engagement = avg_e, avg_ctr = avg_c,
          total_impressions = total\<rparr>)))"

fun number_comma :: "number \<Rightarrow> string" where
  "number_comma (I n) = int_comma n"
| "number_comma (F x) = float_comma x"

section \<open>Chart Builders\<close>

text \<open>
  A builder returns \<open>Inr None\<close> where the function returns \<open>None\<close>, \<open>Inr (Some fig)\<close>
  where it returns a figure, and \<open>Inl e\<close> where it raises. A figure is modelled by
  the data of its trace; the titles, colours and heights are constants of the source.
\<close>

definition ns_per_day :: int where
  "ns_per_day = 86400000000000"

text \<open>\<open>s.dt.date\<close>: the calendar day of every timestamp, as a day number.\<close>

fun dt_date :: "series \<Rightarrow> py_error + int option list" where
  "dt_date (Datetime64 ts) = Inr (map (map_option (\<lambda>t. t div ns_per_day)) ts)"
| "dt_date (Int64 ns) = Inl AttributeError"
| "dt_date (Float64 xs) = Inl AttributeError"
| "dt_date (Object cs) = Inl AttributeError"

text \<open>
  \<open>groupby(key)\<close>: the groups are the distinct keys that are present, in ascending
  order (rows without a key are dropped); \<open>group_of k keys vals\<close> are the values of
  the rows whose key is \<open>k\<close>.
\<close>

definition group_keys :: "int option list \<Rightarrow> int list" where
  "group_keys keys = sort (remdups (present keys))"

definition group_of :: "int \<Rightarrow> int option list \<Rightarrow> 'a list \<Rightarrow> 'a list" where
  "group_of k keys vals = map snd (filter (\<lambda>(d, v). d = Some k) (zip keys vals))"

record trend_chart =
  trend_x :: "int list"
  trend_y :: "rat option list"

text \<open>
  \<open>create_engagement_trend_chart(df)\<close>, lines 126-158. \<open>.agg\<close> is given the three
  columns by name and raises \<open>KeyError\<close> when one of them is not a column of the
  frame; the aggregates of impressions and click-through rate are computed and not
  plotted.
\<close>

definition create_engagement_trend_chart :: "library \<Rightarrow> dataframe \<Rightarrow> py_error + trend_chart option" where
  "create_engagement_trend_chart L df =
     (if \<not> in_columns ''created date'' df then Inr None
      else
        bind_result (getitem df ''created date'') (\<lambda>created.
        bind_result (dt_date created) (\<lambda>days.
        bind_result (getitem df ''engagement rate'') (\<lambda>er.
        bind_result (getitem df ''impressions'') (\<lambda>imp.
        bind_result (getitem df ''click through rate (ctr)'') (\<lambda>ctr.
        bind_result (num_values er) (\<lambda>rates.
        bind_result (num_values imp) (\<lambda>counts.
        bind_result (num_values ctr) (\<lambda>clicks.
          Inr (Some \<lparr>trend_x = group_keys days,
                     trend_y = map (\<lambda>k. times100 L (mean_skipna L (group_of k days rates)))
                                   (group_keys days)\<rparr>))))))))))"

text \<open>
  \<open>df.nlargest(n, column)\<close> seen on the rows: the rows with a value, in descending
  order of the value (rows with equal values in their order in the frame), followed by
  the rows without one; the first \<open>n\<close> of them, none when \<open>n\<close> is not positive.
  (When \<open>n\<close> is at least the number of rows pandas sorts the whole column with
  numpy's default sort, which keeps equal values in their order only in a short
  column; the model takes the order of the frame in every case.)
\<close>

definition nlargest :: "int \<Rightarrow> (rat option \<times> 'a) list \<Rightarrow> (rat option \<times> 'a) list" where
  "nlargest n rows =
     (if n \<le> 0 then []
      else take (nat n)
             (sort_key (\<lambda>(v, r). - the v) (filter (\<lambda>(v, r). v \<noteq> None) rows) @
              filter (\<lambda>(v, r). v = None) rows))"

record bar =
  bar_label :: cell
  bar_x :: "rat option"
  bar_impressions :: cell

record bar_chart =
  bars :: "bar list"
  x_column :: string
  categoryorder :: string

text \<open>
  \<open>create_top_posts_chart(df, metric, top_n)\<close>, lines 160-189. The frame handed to
  \<open>px.bar\<close> holds the selected rows in the order \<open>nlargest\<close> returns them; the layout
  then asks for the category order \<open>total ascending\<close> on the y axis.
\<close>

definition create_top_posts_chart ::
  "library \<Rightarrow> dataframe \<Rightarrow> string \<Rightarrow> int \<Rightarrow> py_error + bar_chart option" where
  "create_top_posts_chart L df metric top_n =
     (if \<not> in_columns metric df then Inr None
      else
        bind_result (getitem df metric) (\<lambda>m.
        bind_result (num_values m) (\<lambda>vals.
        bind_result (getitem df ''post title (first sentence)'') (\<lambda>titles.
        bind_result (getitem df ''impressions'') (\<lambda>imp.
          let top_posts = nlargest top_n (zip vals (zip (series_cells titles) (series_cells imp)));
              percent = (metric \<in> set [''engagement rate'', ''click through rate (ctr)''])
          in Inr (Some \<lparr>bars = map (\<lambda>(v, t, i). \<lparr>bar_label = t,
                                                   bar_x = (if percent then percent_of L m v else v),
                                                   bar_impressions = i\<rparr>) top_posts,
                        x_column = (if percent then metric @ '' (%)'' else metric),
                        categoryorder = ''total ascending''\<rparr>))))))"




record scatter_chart =
  scatter_x :: "cell list"
  scatter_y :: "rat option list"
  hover_title :: "cell list"
  hover_ctr :: "cell list"

text \<open>
  \<open>create_scatter_plot(df)\<close>, lines 191-206. \<open>px.scatter\<close> raises \<open>ValueError\<close> when
  a name in \<open>hover_data\<close> is not a column of the frame.
\<close>

definition hover_column :: "dataframe \<Rightarrow> string \<Rightarrow> py_error + series" where
  "hover_column df name = (case map_of df name of None \<Rightarrow> Inl ValueError | Some s \<Rightarrow> Inr s)"

definition create_scatter_plot :: "library \<Rightarrow> dataframe \<Rightarrow> py_error + scatter_chart option" where
  "create_scatter_plot L df =
     (if \<not> in_columns ''impressions'' df \<or> \<not> in_columns ''engagement rate'' df then Inr None
      else
        bind_result (getitem df ''engagement rate'') (\<lambda>er.
        bind_result (num_values er) (\<lambda>rates.
        bind_result (getitem df ''impressions'') (\<lambda>imp.
        bind_result (hover_column df ''post title (first sentence)'') (\<lambda>titles.
        bind_result (hover_column df ''click through rate (ctr)'') (\<lambda>ctr.
          Inr (Some \<lparr>scatter_x = series_cells imp,
                     scatter_y = map (percent_of L er) rates,
                     hover_title = series_cells titles,
                     hover_ctr = series_cells ctr\<rparr>)))))))"

section \<open>Filtering, formatting, search and export\<close>

text \<open>
  The widgets of one run of \<open>main\<close>: the post type chosen in the select box
  (\<open>Str ''All''\<close> for the entry \<open>'All'\<close>), the dates the date picker returned (day
  numbers; the filter applies when there are two) and the text of the search box.
\<close>

record selections =
  selected_post_type :: cell
  date_range :: "int list"
  search_term :: string

text \<open>Python's \<open>==\<close> on two values of a column: a missing value equals nothing.\<close>

fun cell_eq :: "cell \<Rightarrow> cell \<Rightarrow> bool" where
  "cell_eq (Num a) (Num b) = (number_value a = number_value b)"
| "cell_eq (Str a) (Str b) = (a = b)"
| "cell_eq (Stamp a) (Stamp b) = (a = b)"
| "cell_eq a b = False"

text \<open>The post type filter, lines 235-240.\<close>

definition filter_post_type :: "dataframe \<Rightarrow> cell \<Rightarrow> dataframe" where
  "filter_post_type df selected =
     (case map_of df ''post type'' of
        None \<Rightarrow> df
      | Some s \<Rightarrow>
          if selected \<noteq> Str ''All''
          then frame_select (map (\<lambda>c. cell_eq c selected) (series_cells s)) df
          else df)"

text \<open>
  The date range filter, lines 243-254. The bounds of the date picker are computed
  from the column with \<open>.date()\<close>, which needs a datetime column; the filter keeps the
  rows whose day lies between the two chosen days, both included.
\<close>

definition filter_date_range :: "dataframe \<Rightarrow> int list \<Rightarrow> py_error + dataframe" where
  "filter_date_range df chosen =
     (case map_of df ''created date'' of
        None \<Rightarrow> Inr df
      | Some s \<Rightarrow>
          bind_result (dt_date s) (\<lambda>days.
            if length chosen = 2
            then Inr (frame_select
                        (map (\<lambda>d. case d of None \<Rightarrow> False
                                   | Some day \<Rightarrow> chosen ! 0 \<le> day \<and> day \<le> chosen ! 1) days) df)
            else Inr df))"

text \<open>The columns of the displayed table, lines 290-307.\<close>

definition display_columns :: "string list" where
  "display_columns =
     [''post title (first sentence)'', ''impressions'', ''engagement rate'',
      ''click through rate (ctr)'']"

definition available_columns :: "dataframe \<Rightarrow> string list" where
  "available_columns df =
     (let available = filter (\<lambda>col. in_columns col df) display_columns;
          available = (if in_columns ''created date'' df
                       then take 1 available @ [''created date''] @ drop 1 available
                       else available)
      in if in_columns ''post type'' df then available @ [''post type''] else available)"

definition select_columns :: "dataframe \<Rightarrow> string list \<Rightarrow> dataframe" where
  "select_columns df cols =
     concat (map (\<lambda>col. case map_of df col of None \<Rightarrow> [] | Some s \<Rightarrow> [(col, s)]) cols)"

text \<open>
  \<open>(s * 100).round(2).astype(str) + '%'\<close>, lines 311 and 314: on a float column the
  rounded percentage is printed as \<open>str\<close> prints a float, and a missing value as
  \<open>nan\<close>; a negative percentage that rounds to zero is the negative zero and prints
  as \<open>-0.0\<close>. On an integer column rounding changes nothing and the integer is
  printed.
\<close>

fun percent_str :: "library \<Rightarrow> rat option \<Rightarrow> string" where
  "percent_str L None = ''nan%''"
| "percent_str L (Some x) =
     (let percent = float_mul L x 100;
          rounded = round2 (float_mul L) percent
      in (if rounded = 0 \<and> percent < 0 then ''-0.0'' else float_str rounded) @ ''%'')"

fun format_percent :: "library \<Rightarrow> series \<Rightarrow> py_error + series" where
  "format_percent L (Float64 xs) = Inr (Object (map (\<lambda>v. Str (percent_str L v)) xs))"
| "format_percent L (Int64 ns) =
     Inr (Object (map (\<lambda>n. Str (int_str (wrap_int64 (n * 100)) @ ''%'')) ns))"
| "format_percent L (Datetime64 ts) = Inl TypeError"
| "format_percent L (Object cs) = Inl TypeError"

text \<open>\<open>lambda x: f"{x:,}" if pd.notna(x) else "0"\<close>, line 318.\<close>

fun format_count :: "cell \<Rightarrow> py_error + cell" where
  "format_count NaN = Inr (Str ''0'')"
| "format_count (Num n) = Inr (Str (number_comma n))"
| "format_count (Str s) = Inl ValueError"
| "format_count (Stamp t) = Inl TypeError"

definition format_impressions :: "series \<Rightarrow> py_error + series" where
  "format_impressions s = bind_result (map_result format_count (series_cells s)) (\<lambda>cs. Inr (Object cs))"

definition format_column ::
  "string \<Rightarrow> (series \<Rightarrow> py_error + series) \<Rightarrow> dataframe \<Rightarrow> py_error + dataframe" where
  "format_column name f df =
     (case map_of df name of
        None \<Rightarrow> Inr df
      | Some s \<Rightarrow> bind_result (f s) (\<lambda>formatted. Inr (setitem name formatted df)))"

text \<open>
  \<open>Series.str.contains(pat, case=False, na=False)\<close>, line 324. The pattern is a
  regular expression (\<open>regex=True\<close> is the default), compiled with
  \<open>re.IGNORECASE\<close> and searched in every text; a cell that is not a text gives
  \<open>False\<close>, and a pattern \<open>re.compile\<close> rejects raises \<open>re.error\<close>. A pattern
  built from ordinary characters and dots (a dot matches any character but a newline)
  is matched by the functions below; for a pattern with another special character of
  \<open>re\<close> the engine is the parameter \<open>regex_search\<close>.
\<close>

datatype atom = Lit char | AnyChar

definition regex_special :: string where
  "regex_special = CHR 0x5C # ''^$*+?{}[]|()''"

fun re_compile :: "string \<Rightarrow> atom list option" where
  "re_compile [] = Some []"
| "re_compile (c # cs) =
     (if c \<in> set regex_special then None
      else map_option ((#) (if c = CHR ''.'' then AnyChar else Lit c)) (re_compile cs))"

fun atom_matches :: "atom \<Rightarrow> char \<Rightarrow> bool" where
  "atom_matches (Lit c) d = (lower_char c = lower_char d)"
| "atom_matches AnyChar d = (d \<noteq> CHR 0x0A)"

fun match_here :: "atom list \<Rightarrow> string \<Rightarrow> bool" where
  "match_here [] s = True"
| "match_here (a # as) [] = False"
| "match_here (a # as) (c # cs) = (atom_matches a c \<and> match_here as cs)"

fun re_search :: "atom list \<Rightarrow> string \<Rightarrow> bool" where
  "re_search p [] = match_here p []"
| "re_search p (c # cs) = (match_here p (c # cs) \<or> re_search p cs)"

definition compile_pattern :: "library \<Rightarrow> string \<Rightarrow> (string \<Rightarrow> bool) option" where
  "compile_pattern L pat =
     (case re_compile pat of None \<Rightarrow> regex_search L pat | Some p \<Rightarrow> Some (re_search p))"

fun contains_cell :: "(string \<Rightarrow> bool) \<Rightarrow> cell \<Rightarrow> bool" where
  "contains_cell found (Str s) = found s"
| "contains_cell found c = False"

fun str_contains :: "library \<Rightarrow> string \<Rightarrow> series \<Rightarrow> py_error + bool list" where
  "str_contains L pat (Object cs) =
     (case compile_pattern L pat of
        None \<Rightarrow> Inl ReError
      | Some found \<Rightarrow> Inr (map (contains_cell found) cs))"
| "str_contains L pat (Int64 ns) = Inl AttributeError"
| "str_contains L pat (Float64 xs) = Inl AttributeError"
| "str_contains L pat (Datetime64 ts) = Inl AttributeError"

text \<open>The search of lines 321-325: no filtering for an empty search box.\<close>

definition search_posts :: "library \<Rightarrow> dataframe \<Rightarrow> string \<Rightarrow> py_error + dataframe" where
  "search_posts L display_df term =
     (if term \<noteq> []
      then bind_result (getitem display_df ''post title (first sentence)'') (\<lambda>titles.
           bind_result (str_contains L term titles) (\<lambda>keep.
             Inr (frame_select keep display_df)))
      else Inr display_df)"

text \<open>The formatted copy of the frame, lines 289-318, and the displayed table, lines 289-325.\<close>

definition format_table :: "library \<Rightarrow> dataframe \<Rightarrow> py_error + dataframe" where
  "format_table L df =
     bind_result (format_column ''engagement rate'' (format_percent L)
                    (select_columns df (available_columns df))) (\<lambda>display_df.
     bind_result (format_column ''click through rate (ctr)'' (format_percent L) display_df) (\<lambda>display_df.
       format_column ''impressions'' format_impressions display_df))"

definition display_table :: "library \<Rightarrow> dataframe \<Rightarrow> string \<Rightarrow> py_error + dataframe" where
  "display_table L df term =
     bind_result (format_table L df) (\<lambda>display_df. search_posts L display_df term)"

text \<open>
  \<open>df.to_csv(index=False)\<close>, line 335, as the content of the file: the header and one
  record per row, each field the value of the frame. How pandas writes a value as text
  (quoting, the digits of a float) is not part of the model.
\<close>

record csv_file =
  csv_header :: "string list"
  csv_records :: "cell list list"

definition frame_rows :: "dataframe \<Rightarrow> cell list list" where
  "frame_rows df = map (\<lambda>i. map (\<lambda>(name, s). series_cells s ! i) df) [0..<nrows df]"

definition to_csv :: "dataframe \<Rightarrow> csv_file" where
  "to_csv df = \<lparr>csv_header = map fst df, csv_records = frame_rows df\<rparr>"

section \<open>The page\<close>

text \<open>
  \<open>main()\<close> from the loaded frame to the download button, lines 224-341: what one
  run of the script puts on the page for a loaded frame and the state of the widgets.
  An exception raised on the way ends the run (\<open>Inl\<close>).
\<close>

record page =
  page_metrics :: summary_metrics
  page_trend :: "trend_chart option"
  page_scatter :: "scatter_chart option"
  page_top_engagement :: "bar_chart option"
  page_top_ctr :: "bar_chart option"
  page_table :: dataframe
  page_csv :: csv_file

definition apply_filters :: "dataframe \<Rightarrow> selections \<Rightarrow> py_error + dataframe" where
  "apply_filters df sel =
     filter_date_range (filter_post_type df (selected_post_type sel)) (date_range sel)"

definition main :: "library \<Rightarrow> dataframe \<Rightarrow> selections \<Rightarrow> py_error + page" where
  "main L loaded sel =
     bind_result (create_summary_metrics L loaded) (\<lambda>metrics.
     bind_result (apply_filters loaded sel) (\<lambda>df.
     bind_result (create_engagement_trend_chart L df) (\<lambda>trend_fig.
     bind_result (create_scatter_plot L df) (\<lambda>scatter_fig.
     bind_result (create_top_posts_chart L df ''engagement rate'' 10) (\<lambda>top_engagement_fig.
     bind_result (create_top_posts_chart L df ''click through rate (ctr)'' 10) (\<lambda>top_ctr_fig.
     bind_result (display_table L df (search_term sel)) (\<lambda>display_df.
       Inr \<lparr>page_metrics = metrics, page_trend = trend_fig, page_scatter = scatter_fig,
            page_top_engagement = top_engagement_fig, page_top_ctr = top_ctr_fig,
            page_table = display_df, page_csv = to_csv df\<rparr>)))))))"


section \<open>Example frames\<close>

text \<open>Three posts, the second without an engagement rate and without impressions.\<close>

definition three_posts :: dataframe where
  "three_posts =
     [(''post title'', Object [Str ''a'', Str ''b'', Str ''c'']),
      (''engagement rate'', Float64 [Some (1 / 10), None, Some (3 / 10)]),
      (''click through rate (ctr)'', Float64 [None, None, Some (1 / 100)]),
      (''impressions'', Float64 [Some 100, None, Some 200]),
      (''post title (first sentence)'', Object [Str ''a'', Str ''b'', Str ''c''])]"

text \<open>
  A sheet with a title column and a date column and nothing else, as \<open>read_excel\<close>
  returns it, and the frame the loader makes of it.
\<close>

definition dated_sheet :: dataframe where
  "dated_sheet =
     [(''Post title'', Object [Str ''Hello world'']),
      (''Created date'', Datetime64 [Some 0])]"

definition dated_posts :: dataframe where
  "dated_posts =
     [(''post title'', Object [Str ''Hello world'']),
      (''created date'', Datetime64 [Some 0]),
      (''post title (first sentence)'', Object [Str ''Hello world''])]"

text \<open>
  A library whose parsers reject every text and every pattern, and whose arithmetic is
  exact.
\<close>

definition strict_library :: library where
  "strict_library =
     \<lparr>parse_number = (\<lambda>s. None), as_timestamp = (\<lambda>c. None), py_str = (\<lambda>c. []),
      regex_search = (\<lambda>pat. None), float_sum = sum_list, float_div = (\<lambda>x y. x / y),
      float_mul = (\<lambda>x y. x * y)\<rparr>"

text \<open>Two posts whose engagement rate was never recorded, and two whose click-through rate was not.\<close>

definition no_rates_recorded :: dataframe where
  "no_rates_recorded =
     [(''post title'', Object [Str ''a'', Str ''b'']),
      (''engagement rate'', Float64 [None, None]),
      (''post title (first sentence)'', Object [Str ''a'', Str ''b''])]"

definition no_clicks_recorded :: dataframe where
  "no_clicks_recorded =
     [(''post title'', Object [Str ''a'', Str ''b'']),
      (''click through rate (ctr)'', Float64 [None, None]),
      (''post title (first sentence)'', Object [Str ''a'', Str ''b''])]"

text \<open>A sheet whose date column holds a timestamp and a text that is no date.\<close>

definition undated_sheet :: dataframe where
  "undated_sheet =
     [(''Post title'', Object [Str ''Hello world'', Str ''Second post'']),
      (''Created date'', Object [Stamp 0, Str ''soon''])]"

text \<open>The same posts with a rate column instead, one rate written as a text that is no number.\<close>

definition unrated_sheet :: dataframe where
  "unrated_sheet =
     [(''Post title'', Object [Str ''Hello world'', Str ''Second post'']),
      (''Engagement rate'', Object [Num (F (1 / 20)), Str ''n/a''])]"

text \<open>Loaded frames that lack one of the optional columns.\<close>

definition rated_posts :: dataframe where
  "rated_posts =
     [(''post title'', Object [Str ''Hello world'']),
      (''engagement rate'', Float64 [Some (1 / 20)]),
      (''post title (first sentence)'', Object [Str ''Hello world''])]"

definition viewed_posts :: dataframe where
  "viewed_posts =
     [(''post title'', Object [Str ''Hello world'']),
      (''engagement rate'', Float64 [Some (1 / 20)]),
      (''impressions'', Int64 [1200]),
      (''post title (first sentence)'', Object [Str ''Hello world''])]"

text \<open>Two posts with their summaries, and a single post whose summary has no dot in it.\<close>

definition launch_posts :: dataframe where
  "launch_posts =
     [(''post title'', Object [Str ''Product Launch Day'', Str ''Weekly notes'']),
      (''post title (first sentence)'', Object [Str ''Product Launch Day'', Str ''Weekly notes''])]"

definition abc_post :: dataframe where
  "abc_post = [(''post title (first sentence)'', Object [Str ''abc''])]"









text \<open>
  A state of the widgets (no post type chosen, no date range, the search term
  \<open>launch\<close>) and the page the two posts give in that state.
\<close>

definition launch_search :: selections where
  "launch_search = \<lparr>selected_post_type = Str ''All'', date_range = [], search_term = ''launch''\<rparr>"

definition launch_page :: page where
  "launch_page =
     \<lparr>page_metrics = \<lparr>total_posts = 2, avg_engagement = Some 0, avg_ctr = Some 0,
                       total_impressions = I 0\<rparr>,
      page_trend = None, page_scatter = None, page_top_engagement = None, page_top_ctr = None,
      page_table = [(''post title (first sentence)'', Object [Str ''Product Launch Day''])],
      page_csv = \<lparr>csv_header = [''post title'', ''post title (first sentence)''],
                  csv_records = [[Str ''Product Launch Day'', Str ''Product Launch Day''],
                                 [Str ''Weekly notes'', Str ''Weekly notes'']]\<rparr>\<rparr>"

section \<open>Properties of the Sentence Extractor\<close>

lemma re_split_not_Nil: "re_split t \<noteq> []"
  by (induction t rule: re_split.induct) (auto simp: neq_Nil_conv elim: push_char.elims)

lemma length_push_char: "ss \<noteq> [] \<Longrightarrow> length (push_char c ss) = length ss"
  by (cases ss) auto

lemma re_split_no_break: "\<not> has_break t \<Longrightarrow> re_split t = [t]"
  by (induction t) auto

lemma re_split_break: "has_break t \<Longrightarrow> length (re_split t) > 1"
proof (induction t rule: re_split.induct)
  case 1
  then show ?case by simp
next
  case (2 c cs)
  then show ?case
    using re_split_not_Nil [of "dropWhile isspace cs"]
    by (auto simp: length_push_char re_split_not_Nil Suc_lessI)
qed

lemma single_sentence_iff: "length (re_split t) = 1 \<longleftrightarrow> \<not> has_break t"
  using re_split_break [of t] re_split_no_break [of t] by auto

lemma has_break_append_left: "has_break a \<Longrightarrow> has_break (a @ b)"
proof (induction a)
  case Nil
  then show ?case by simp
next
  case (Cons c cs)
  then show ?case by (cases cs) auto
qed

lemma has_break_append_right: "has_break b \<Longrightarrow> has_break (a @ b)"
  by (induction a) auto

lemma has_break_dropWhile: "has_break (dropWhile P t) \<Longrightarrow> has_break t"
  using has_break_append_right [of "dropWhile P t" "takeWhile P t"] by simp

lemma rev_dropWhile_rev_prefix: "rev (dropWhile P (rev u)) @ rev (takeWhile P (rev u)) = u"
  by (metis rev_append rev_rev_ident takeWhile_dropWhile_id)

lemma has_break_strip: "has_break (str_strip t) \<Longrightarrow> has_break t"
proof -
  assume h: "has_break (str_strip t)"
  let ?u = "dropWhile isspace t"
  have "has_break (rev (dropWhile isspace (rev ?u)) @ rev (takeWhile isspace (rev ?u)))"
    using h has_break_append_left unfolding str_strip_def by blast
  then have "has_break ?u" by (simp only: rev_dropWhile_rev_prefix)
  then show ?thesis by (rule has_break_dropWhile)
qed

lemma sentence_end_not_space: "sentence_end c \<Longrightarrow> \<not> isspace c"
  by (auto simp: sentence_end_def isspace_def)

lemma all_space_no_break: "\<forall>c \<in> set t. isspace c \<Longrightarrow> \<not> has_break t"
  by (induction t) (auto dest: sentence_end_not_space)

lemma str_strip_Nil_iff: "str_strip t = [] \<longleftrightarrow> (\<forall>c \<in> set t. isspace c)"
proof -
  have "dropWhile isspace t = [] \<or> \<not> isspace (hd (dropWhile isspace t))"
    by (metis hd_dropWhile)
  then have "(\<forall>x \<in> set (dropWhile isspace t). isspace x) \<longleftrightarrow> dropWhile isspace t = []"
    by (metis hd_in_set empty_iff empty_set)
  then show ?thesis
    unfolding str_strip_def by (simp add: dropWhile_eq_Nil_conv)
qed

lemma dropWhile_rev_dropWhile:
  "dropWhile P (rev (dropWhile P (rev u))) = rev (dropWhile P (rev u))" if "u = [] \<or> \<not> P (hd u)"
proof (cases "dropWhile P (rev u) = []")
  case True
  show ?thesis by (simp only: True rev.simps dropWhile.simps)
next
  case False
  have "rev (dropWhile P (rev u)) @ rev (takeWhile P (rev u)) = u"
    by (rule rev_dropWhile_rev_prefix)
  then have "hd (rev (dropWhile P (rev u))) = hd u"
    using False by (metis hd_append2 rev_is_Nil_conv)
  moreover have "u \<noteq> []" using False by auto
  ultimately have "\<not> P (hd (rev (dropWhile P (rev u))))" using that by simp
  then show ?thesis using False by (metis dropWhile_eq_self_iff rev_is_Nil_conv hd_in_set)
qed

lemma str_strip_idem: "str_strip (str_strip t) = str_strip t"
proof -
  let ?u = "dropWhile isspace t"
  have u: "?u = [] \<or> \<not> isspace (hd ?u)" by (metis hd_dropWhile)
  have "dropWhile isspace (str_strip t) = str_strip t"
    unfolding str_strip_def using u by (rule dropWhile_rev_dropWhile)
  then show ?thesis
    by (simp add: str_strip_def dropWhile_idem)
qed

lemma length_str_strip: "length (str_strip t) \<le> length t"
  unfolding str_strip_def
  by (metis length_rev length_dropWhile_le order_trans)


lemma extract_single:
  assumes "\<not> has_break t" "t \<noteq> []"
  shows "extract_first_sentence (Some t) =
           (if length (str_strip t) > 100 then take 97 (str_strip t) @ ''...'' else str_strip t)"
  using assms by (simp add: extract_first_sentence_def re_split_no_break Let_def)

lemma extract_Nil_iff:
  "extract_first_sentence (Some t) = [] \<longleftrightarrow> str_strip t = []"
proof (cases "t = []")
  case True
  then show ?thesis by (simp add: extract_first_sentence_def str_strip_def)
next
  case False
  show ?thesis
  proof (cases "has_break t")
    case True
    then have "\<not> (\<forall>c \<in> set t. isspace c)" using all_space_no_break by blast
    then have "str_strip t \<noteq> []" by (simp add: str_strip_Nil_iff)
    moreover have "1 < length (re_split t)" using True by (rule re_split_break)
    then have "extract_first_sentence (Some t) \<noteq> []"
      using False by (auto simp: extract_first_sentence_def Let_def)
    ultimately show ?thesis by simp
  next
    case nb: False
    show ?thesis using extract_single [OF nb False] by auto
  qed
qed

lemma length_extract: "length (extract_first_sentence x) \<le> 100"
  by (auto simp: extract_first_sentence_def Let_def split: option.splits)

text \<open>
  Claim C5, as amended. For every title cell, missing or text, the Sentence Extractor
  returns at most 100 characters, and it returns the empty string exactly when the cell
  is missing or its text holds nothing but whitespace (the empty text included): the
  first piece is stripped before it is used, so a blank title has an empty summary.
\<close>

theorem extract_first_sentence_bounded:
  "length (extract_first_sentence x) \<le> 100 \<and>
   (extract_first_sentence x = [] \<longleftrightarrow> (case x of None \<Rightarrow> True | Some t \<Rightarrow> str_strip t = []))"
proof (cases x)
  case None
  then show ?thesis by (simp add: extract_first_sentence_def)
next
  case (Some t)
  then show ?thesis using length_extract [of x] extract_Nil_iff [of t] by simp
qed

text \<open>
  The claim as stated (empty result only for a missing or empty input) fails at the
  one-character text holding a single space: the input is neither missing nor empty,
  and the summary is empty.
\<close>

theorem extract_first_sentence_blank_counterexample:
  "\<not> (extract_first_sentence (Some [CHR 0x20]) = [] \<longleftrightarrow> (Some [CHR 0x20] = None \<or> Some [CHR 0x20] = Some []))"
  by (simp add: extract_first_sentence_def str_strip_def isspace_def sentence_end_def)

text \<open>
  Claim C9. A text of at most 100 characters in which the sentence pattern does not
  match (\<open>re.split\<close> returns a single piece) is a short single-sentence input; on
  it, applying the Sentence Extractor to its own output returns that output.
\<close>

theorem extract_first_sentence_idempotent:
  assumes "length (re_split t) = 1" and "length t \<le> 100"
  shows "extract_first_sentence (Some (extract_first_sentence (Some t))) =
         extract_first_sentence (Some t)"
proof (cases "t = []")
  case True
  then show ?thesis by (simp add: extract_first_sentence_def)
next
  case False
  have nb: "\<not> has_break t" using assms(1) single_sentence_iff [of t] by blast
  have len: "length (str_strip t) \<le> 100"
    using length_str_strip [of t] assms(2) by simp
  have r: "extract_first_sentence (Some t) = str_strip t"
    using extract_single [OF nb False] len by simp
  show ?thesis
  proof (cases "str_strip t = []")
    case True
    have "extract_first_sentence (Some []) = []"
      by (simp add: extract_first_sentence_def)
    then show ?thesis by (simp only: r True)
  next
    case ne: False
    have nb': "\<not> has_break (str_strip t)" using nb has_break_strip by blast
    show ?thesis
      using extract_single [OF nb' ne] len by (simp add: r str_strip_idem)
  qed
qed

text \<open>The hypotheses of C9 hold for a padded one-sentence title.\<close>

theorem extract_first_sentence_idempotent_witness:
  "length (re_split ''  Quarterly results are in '') = 1 \<and> length ''  Quarterly results are in '' \<le> 100 \<and>
   extract_first_sentence (Some ''  Quarterly results are in '') = ''Quarterly results are in'' \<and>
   extract_first_sentence (Some (extract_first_sentence (Some ''  Quarterly results are in ''))) =
     extract_first_sentence (Some ''  Quarterly results are in '')"
proof -
  have a: "length (re_split ''  Quarterly results are in '') = 1"
    by (simp add: sentence_end_def isspace_def)
  have b: "length ''  Quarterly results are in '' \<le> 100" by simp
  have c: "extract_first_sentence (Some ''  Quarterly results are in '') = ''Quarterly results are in''"
    by (simp add: extract_first_sentence_def str_strip_def sentence_end_def isspace_def)
  show ?thesis using a b c extract_first_sentence_idempotent [OF a b] by simp
qed


section \<open>Properties of the Metrics Summarizer\<close>

lemma in_columns_iff: "in_columns name df \<longleftrightarrow> map_of df name \<noteq> None"
  by (simp add: in_columns_def map_of_eq_None_iff)

lemma average_percent_present:
  assumes "map_of df name = Some s" and "num_values s = Inr xs"
  shows "average_percent L df name = Inr (times100 L (mean_skipna L xs))"
  using assms
  by (simp add: average_percent_def in_columns_iff getitem_def bind_result_def series_mean_def)

lemma average_percent_absent:
  assumes "map_of df name = None"
  shows "average_percent L df name = Inr (Some 0)"
  using assms by (simp add: average_percent_def in_columns_iff)

lemma summary_metrics_fields:
  assumes "create_summary_metrics L df = Inr m"
  shows "average_percent L df ''engagement rate'' = Inr (avg_engagement m)"
    and "average_percent L df ''click through rate (ctr)'' = Inr (avg_ctr m)"
    and "(if in_columns ''impressions'' df
          then bind_result (getitem df ''impressions'') (series_sum L)
          else Inr (I 0)) = Inr (total_impressions m)"
    and "total_posts m = nrows df"
  using assms
  by (auto simp: create_summary_metrics_def bind_result_def split: sum.splits)

lemma summary_total_present:
  assumes "create_summary_metrics L df = Inr m" and "map_of df ''impressions'' = Some s"
  shows "series_sum L s = Inr (total_impressions m)"
  using summary_metrics_fields(3) [OF assms(1)] assms(2)
  by (simp add: in_columns_iff getitem_def bind_result_def)

lemma present_all_None: "\<forall>v \<in> set xs. v = None \<Longrightarrow> present xs = []"
  by (induction xs) auto

lemma times100_mean:
  "times100 L (mean_skipna L xs) =
     (if present xs = [] then None
      else Some (float_mul L (float_div L (float_sum L (present xs)) (of_nat (length (present xs)))) 100))"
  by (simp add: times100_def mean_skipna_def Let_def)

text \<open>
  Claim C3. Whenever the summarizer returns its metrics, column by column: the average
  of a numeric engagement rate column is the mean of the values that are present (their
  sum divided by their number), times 100, and \<open>NaN\<close> when none is present; the same
  holds for the click-through rate; the total of a float impressions column is the sum
  of the values that are present, and the total of an integer column (which has no
  missing value) is the 64-bit sum of its values. A missing value adds nothing to a sum
  and is not counted in a mean. The sum, the quotient and the product are those of the
  library, whatever their rounding.
\<close>

theorem summary_metrics_exclude_missing:
  assumes "create_summary_metrics L df = Inr m"
  shows "(\<forall>e rates. map_of df ''engagement rate'' = Some e \<and> num_values e = Inr rates \<longrightarrow>
            avg_engagement m =
              (if present rates = [] then None
               else Some (float_mul L (float_div L (float_sum L (present rates))
                                                  (of_nat (length (present rates)))) 100))) \<and>
         (\<forall>c clicks. map_of df ''click through rate (ctr)'' = Some c \<and> num_values c = Inr clicks \<longrightarrow>
            avg_ctr m =
              (if present clicks = [] then None
               else Some (float_mul L (float_div L (float_sum L (present clicks))
                                                  (of_nat (length (present clicks)))) 100))) \<and>
         (\<forall>counts. map_of df ''impressions'' = Some (Float64 counts) \<longrightarrow>
            total_impressions m = F (float_sum L (present counts))) \<and>
         (\<forall>ns. map_of df ''impressions'' = Some (Int64 ns) \<longrightarrow>
            total_impressions m = I (wrap_int64 (sum_list ns)))"
proof -
  have e: "avg_engagement m = times100 L (mean_skipna L rates)"
    if "map_of df ''engagement rate'' = Some e" "num_values e = Inr rates" for e rates
    using summary_metrics_fields(1) [OF assms] average_percent_present [OF that, of L] by simp
  have c: "avg_ctr m = times100 L (mean_skipna L clicks)"
    if "map_of df ''click through rate (ctr)'' = Some c" "num_values c = Inr clicks" for c clicks
    using summary_metrics_fields(2) [OF assms] average_percent_present [OF that, of L] by simp
  have f: "total_impressions m = F (float_sum L (present counts))"
    if "map_of df ''impressions'' = Some (Float64 counts)" for counts
    using summary_total_present [OF assms that] by simp
  have i: "total_impressions m = I (wrap_int64 (sum_list ns))"
    if "map_of df ''impressions'' = Some (Int64 ns)" for ns
    using summary_total_present [OF assms that] by simp
  show ?thesis
    using e c f i by (simp only: times100_mean) blast
qed

lemma three_posts_metrics:
  "create_summary_metrics strict_library three_posts =
     Inr \<lparr>total_posts = 3, avg_engagement = Some 20, avg_ctr = Some 1, total_impressions = F 300\<rparr>"
  by (simp add: three_posts_def create_summary_metrics_def average_percent_def in_columns_def
        getitem_def bind_result_def series_mean_def mean_skipna_def times100_def nrows_def
        strict_library_def)

text \<open>
  The frame of the claim, with exact arithmetic: engagement rates 0.1, missing, 0.3 give
  the average 20 (and not 13.33), and impressions 100, missing, 200 give the total 300.
\<close>

theorem summary_metrics_exclude_missing_witness:
  "create_summary_metrics strict_library three_posts =
     Inr \<lparr>total_posts = 3, avg_engagement = Some 20, avg_ctr = Some 1, total_impressions = F 300\<rparr> \<and>
   map_of three_posts ''engagement rate'' = Some (Float64 [Some (1 / 10), None, Some (3 / 10)]) \<and>
   num_values (Float64 [Some (1 / 10), None, Some (3 / 10)]) = Inr [Some (1 / 10), None, Some (3 / 10)] \<and>
   present [Some (1 / 10), None, Some (3 / 10 :: rat)] = [1 / 10, 3 / 10] \<and>
   Some (20 :: rat) =
     Some (float_mul strict_library
             (float_div strict_library (float_sum strict_library [1 / 10, 3 / 10]) (of_nat 2)) 100) \<and>
   map_of three_posts ''impressions'' = Some (Float64 [Some 100, None, Some 200]) \<and>
   F 300 = F (float_sum strict_library (present [Some 100, None, Some 200]))"
proof -
  let ?m = "\<lparr>total_posts = 3, avg_engagement = Some 20, avg_ctr = Some 1, total_impressions = F 300\<rparr>"
  note t = summary_metrics_exclude_missing [OF three_posts_metrics]
  have e: "map_of three_posts ''engagement rate'' = Some (Float64 [Some (1 / 10), None, Some (3 / 10)])"
    by (simp add: three_posts_def)
  have i: "map_of three_posts ''impressions'' = Some (Float64 [Some 100, None, Some 200])"
    by (simp add: three_posts_def)
  have n: "num_values (Float64 [Some (1 / 10), None, Some (3 / 10)]) = Inr [Some (1 / 10), None, Some (3 / 10)]"
    by simp
  have p: "present [Some (1 / 10), None, Some (3 / 10 :: rat)] = [1 / 10, 3 / 10]" by simp
  have a: "avg_engagement ?m =
      (if present [Some (1 / 10), None, Some (3 / 10 :: rat)] = [] then None
       else Some (float_mul strict_library
                    (float_div strict_library
                       (float_sum strict_library (present [Some (1 / 10), None, Some (3 / 10)]))
                       (of_nat (length (present [Some (1 / 10), None, Some (3 / 10 :: rat)])))) 100))"
    using t e n by blast
  have b: "total_impressions ?m = F (float_sum strict_library (present [Some 100, None, Some 200]))"
    using t i by blast
  show ?thesis
    using three_posts_metrics e n p i a b by simp
qed

text \<open>
  Claim C10. Whenever the summarizer returns its metrics: an engagement rate column
  that is present with every value missing gives the average \<open>NaN\<close>, and only an
  absent column gives the fallback 0; the same holds for the click-through rate.
\<close>

theorem average_is_nan_when_all_missing:
  assumes "create_summary_metrics L df = Inr m"
  shows "(map_of df ''engagement rate'' = Some (Float64 rates) \<and> (\<forall>v \<in> set rates. v = None)
            \<longrightarrow> avg_engagement m = None) \<and>
         (map_of df ''engagement rate'' = None \<longrightarrow> avg_engagement m = Some 0) \<and>
         (map_of df ''click through rate (ctr)'' = Some (Float64 clicks) \<and> (\<forall>v \<in> set clicks. v = None)
            \<longrightarrow> avg_ctr m = None) \<and>
         (map_of df ''click through rate (ctr)'' = None \<longrightarrow> avg_ctr m = Some 0)"
proof -
  have nan: "times100 L (mean_skipna L xs) = None" if "\<forall>v \<in> set xs. v = None" for xs
    using present_all_None [OF that] by (simp add: times100_def mean_skipna_def)
  have e1: "avg_engagement m = None"
    if "map_of df ''engagement rate'' = Some (Float64 rates)" "\<forall>v \<in> set rates. v = None"
    using summary_metrics_fields(1) [OF assms] average_percent_present [OF that(1), of rates L]
          nan [OF that(2)]
    by simp
  have e2: "avg_engagement m = Some 0" if "map_of df ''engagement rate'' = None"
    using summary_metrics_fields(1) [OF assms] average_percent_absent [OF that, of L] by simp
  have c1: "avg_ctr m = None"
    if "map_of df ''click through rate (ctr)'' = Some (Float64 clicks)" "\<forall>v \<in> set clicks. v = None"
    using summary_metrics_fields(2) [OF assms] average_percent_present [OF that(1), of clicks L]
          nan [OF that(2)]
    by simp
  have c2: "avg_ctr m = Some 0" if "map_of df ''click through rate (ctr)'' = None"
    using summary_metrics_fields(2) [OF assms] average_percent_absent [OF that, of L] by simp
  show ?thesis using e1 e2 c1 c2 by blast
qed

text \<open>
  Both cases on both columns: a frame whose engagement rates are all missing and which
  has no click-through column, and a frame with the two columns the other way round.
\<close>

theorem average_is_nan_when_all_missing_witness:
  "create_summary_metrics strict_library no_rates_recorded =
     Inr \<lparr>total_posts = 2, avg_engagement = None, avg_ctr = Some 0, total_impressions = I 0\<rparr> \<and>
   create_summary_metrics strict_library no_clicks_recorded =
     Inr \<lparr>total_posts = 2, avg_engagement = Some 0, avg_ctr = None, total_impressions = I 0\<rparr> \<and>
   map_of no_rates_recorded ''engagement rate'' = Some (Float64 [None, None]) \<and>
   map_of no_rates_recorded ''click through rate (ctr)'' = None \<and>
   map_of no_clicks_recorded ''click through rate (ctr)'' = Some (Float64 [None, None]) \<and>
   map_of no_clicks_recorded ''engagement rate'' = None"
proof -
  let ?a = "\<lparr>total_posts = 2, avg_engagement = None, avg_ctr = Some 0, total_impressions = I 0\<rparr>"
  let ?b = "\<lparr>total_posts = 2, avg_engagement = Some 0, avg_ctr = None, total_impressions = I 0\<rparr>"
  have a: "create_summary_metrics strict_library no_rates_recorded = Inr ?a"
    by (simp add: no_rates_recorded_def create_summary_metrics_def average_percent_def
          in_columns_def getitem_def bind_result_def series_mean_def mean_skipna_def times100_def
          nrows_def)
  have b: "create_summary_metrics strict_library no_clicks_recorded = Inr ?b"
    by (simp add: no_clicks_recorded_def create_summary_metrics_def average_percent_def
          in_columns_def getitem_def bind_result_def series_mean_def mean_skipna_def times100_def
          nrows_def)
  have cols:
    "map_of no_rates_recorded ''engagement rate'' = Some (Float64 [None, None])"
    "map_of no_rates_recorded ''click through rate (ctr)'' = None"
    "map_of no_clicks_recorded ''click through rate (ctr)'' = Some (Float64 [None, None])"
    "map_of no_clicks_recorded ''engagement rate'' = None"
    by (simp_all add: no_rates_recorded_def no_clicks_recorded_def)
  show ?thesis
    using average_is_nan_when_all_missing [OF a, of "[None, None]" "[]"]
          average_is_nan_when_all_missing [OF b, of "[]" "[None, None]"] a b cols
    by simp
qed


section \<open>Properties of the Data Loader\<close>

lemma map_of_replace:
  "map_of (map (\<lambda>(col, old). if col = name then (col, s) else (col, old)) df) n =
     (if n = name then map_option (\<lambda>old. s) (map_of df name) else map_of df n)"
  by (induction df) auto

lemma map_of_setitem: "map_of (setitem name s df) n = (if n = name then Some s else map_of df n)"
proof (cases "in_columns name df")
  case True
  then obtain old where "map_of df name = Some old" by (auto simp: in_columns_iff)
  then show ?thesis using True by (simp add: setitem_def map_of_replace)
next
  case False
  then have "map_of df name = None" by (simp add: in_columns_iff)
  then show ?thesis using False by (auto simp: setitem_def map_add_def split: option.splits)
qed

lemma map_result_Inl:
  assumes "x \<in> set xs" and "f x = Inl e"
  shows "\<exists>e'. map_result f xs = Inl e'"
  using assms
proof (induction xs)
  case Nil
  then show ?case by simp
next
  case (Cons a xs)
  show ?case
  proof (cases "f a")
    case (Inl e0)
    then show ?thesis by simp
  next
    case (Inr y)
    then have "x \<in> set xs" using Cons.prems by auto
    then obtain e' where "map_result f xs = Inl e'" using Cons.IH Cons.prems(2) by blast
    then show ?thesis using Inr by simp
  qed
qed

lemma to_datetime_fails:
  assumes "Str d \<in> set cs" and "as_timestamp L (Str d) = None"
  shows "\<exists>e. to_datetime L (Object cs) = Inl e"
proof -
  have "datetime_cell L (Str d) = Inl ValueError" using assms(2) by simp
  then have "\<exists>e. map_result (datetime_cell L) cs = Inl e"
    by (rule map_result_Inl [OF assms(1)])
  then obtain e where "map_result (datetime_cell L) cs = Inl e" ..
  then show ?thesis by (simp add: to_datetime_def bind_result_def)
qed

lemma assign_converted_fails:
  assumes "map_of df name = Some s" and "convert s = Inl e"
  shows "\<exists>e'. assign_converted name convert on_frame df = Inl e'"
  using assms by (simp add: assign_converted_def bind_result_def)

lemma bind_result_Inl: "bind_result (Inl e) f = Inl e"
  by (simp add: bind_result_def)

text \<open>
  Claim C1, where the code departs from it. The date column is converted by
  \<open>pd.to_datetime\<close> without \<open>errors='coerce'\<close>: whenever a text of the date column
  cannot be converted, the exception is caught by the \<open>except\<close> branch and the load
  returns no table at all.
\<close>

theorem load_fails_on_unconvertible_date:
  assumes "map_of (normalize_columns raw) ''created date'' = Some (Object cs)"
    and "Str d \<in> set cs" and "as_timestamp L (Str d) = None"
  shows "load_and_process_data L (Inr raw) = None"
proof (cases "map_of (normalize_columns raw) ''post title''")
  case None
  then show ?thesis by (simp add: load_and_process_data_def)
next
  case (Some titles)
  show ?thesis
  proof (cases "duplicated ''post title'' (normalize_columns raw)")
    case True
    then show ?thesis using Some by (simp add: load_and_process_data_def)
  next
    case False
    define df where "df = setitem ''post title (first sentence)''
        (Object (map (\<lambda>c. Str (extract_first_sentence (title_text L c))) (series_cells titles)))
        (normalize_columns raw)"
    have col: "map_of df ''created date'' = Some (Object cs)"
      using assms(1) by (simp add: df_def map_of_setitem)
    obtain e0 where "to_datetime L (Object cs) = Inl e0"
      using to_datetime_fails [OF assms(2,3)] by blast
    then obtain e where e: "assign_converted ''created date'' (to_datetime L) ValueError df = Inl e"
      using assign_converted_fails [OF col] by blast
    show ?thesis
      using Some False
      by (simp add: load_and_process_data_def Let_def df_def [symmetric] e bind_result_Inl)
  qed
qed

lemma undated_sheet_columns:
  "normalize_columns undated_sheet =
     [(''post title'', Object [Str ''Hello world'', Str ''Second post'']),
      (''created date'', Object [Stamp 0, Str ''soon''])]"
  by (simp add: undated_sheet_def normalize_columns_def py_lower_def lower_char_def
        upper_letters_def lower_letters_def str_strip_def isspace_def)

text \<open>A sheet with one date cell that is no date: the load returns nothing.\<close>

theorem load_fails_on_unconvertible_date_witness:
  "map_of (normalize_columns undated_sheet) ''created date'' = Some (Object [Stamp 0, Str ''soon'']) \<and>
   Str ''soon'' \<in> set [Stamp 0, Str ''soon''] \<and>
   as_timestamp strict_library (Str ''soon'') = None \<and>
   load_and_process_data strict_library (Inr undated_sheet) = None"
proof -
  have a: "map_of (normalize_columns undated_sheet) ''created date'' = Some (Object [Stamp 0, Str ''soon''])"
    by (simp add: undated_sheet_columns)
  have b: "Str ''soon'' \<in> set [Stamp 0, Str ''soon'']" by simp
  have c: "as_timestamp strict_library (Str ''soon'') = None" by (simp add: strict_library_def)
  show ?thesis using a b c load_fails_on_unconvertible_date [OF a b c] by simp
qed

text \<open>
  The numeric columns are converted with \<open>errors='coerce'\<close>: there the cell that is
  no number becomes missing and the load returns its table.
\<close>

lemma unrated_sheet_columns:
  "normalize_columns unrated_sheet =
     [(''post title'', Object [Str ''Hello world'', Str ''Second post'']),
      (''engagement rate'', Object [Num (F (1 / 20)), Str ''n/a''])]"
  by (simp add: unrated_sheet_def normalize_columns_def py_lower_def lower_char_def
        upper_letters_def lower_letters_def str_strip_def isspace_def)

lemma extract_second_post: "extract_first_sentence (Some ''Second post'') = ''Second post''"
  by (simp add: extract_first_sentence_def sentence_end_def str_strip_def isspace_def)

lemma extract_hello_world: "extract_first_sentence (Some ''Hello world'') = ''Hello world''"
  by (simp add: extract_first_sentence_def sentence_end_def str_strip_def isspace_def)

lemma load_coerces_unconvertible_number:
  "load_and_process_data strict_library (Inr unrated_sheet) =
     Some [(''post title'', Object [Str ''Hello world'', Str ''Second post'']),
           (''engagement rate'', Float64 [Some (1 / 20), None]),
           (''post title (first sentence)'', Object [Str ''Hello world'', Str ''Second post''])]"
  by (simp add: load_and_process_data_def unrated_sheet_columns extract_hello_world
        extract_second_post assign_converted_def duplicated_def setitem_def in_columns_def
        bind_result_def strict_library_def)

section \<open>Properties of the Chart Builders\<close>

lemma dated_sheet_columns:
  "normalize_columns dated_sheet =
     [(''post title'', Object [Str ''Hello world'']), (''created date'', Datetime64 [Some 0])]"
  by (simp add: dated_sheet_def normalize_columns_def py_lower_def lower_char_def
        upper_letters_def lower_letters_def str_strip_def isspace_def)

lemma dated_load: "load_and_process_data L (Inr dated_sheet) = Some dated_posts"
  by (simp add: load_and_process_data_def dated_sheet_columns extract_hello_world dated_posts_def
        to_datetime_def bind_result_def assign_converted_def duplicated_def setitem_def
        in_columns_def)

lemma dated_trend: "create_engagement_trend_chart L dated_posts = Inl KeyError"
  by (simp add: create_engagement_trend_chart_def dated_posts_def in_columns_def getitem_def
        bind_result_def)

lemma frame_select_names: "map fst (frame_select keep df) = map fst df"
  by (induction df) (auto simp: frame_select_def)

lemma map_of_frame_select:
  "map_of (frame_select keep df) name = map_option (series_select keep) (map_of df name)"
  by (induction df) (auto simp: frame_select_def)

lemma dated_main: "main L dated_posts sel = Inl KeyError"
proof -
  have m: "\<exists>m. create_summary_metrics L dated_posts = Inr m"
    by (simp add: create_summary_metrics_def average_percent_def in_columns_def dated_posts_def
          bind_result_def)
  have f: "\<exists>keep. apply_filters dated_posts sel = Inr (frame_select keep dated_posts)"
  proof (cases "length (date_range sel) = 2")
    case True
    then have "apply_filters dated_posts sel =
        Inr (frame_select [date_range sel ! 0 \<le> 0 \<and> 0 \<le> date_range sel ! 1] dated_posts)"
      by (simp add: apply_filters_def filter_post_type_def filter_date_range_def dated_posts_def
            bind_result_def ns_per_day_def)
    then show ?thesis by blast
  next
    case False
    have "frame_select [True] dated_posts = dated_posts"
      by (simp add: frame_select_def dated_posts_def select_rows_def)
    then have "apply_filters dated_posts sel = Inr (frame_select [True] dated_posts)"
      using False
      by (simp add: apply_filters_def filter_post_type_def filter_date_range_def dated_posts_def
            bind_result_def)
    then show ?thesis by blast
  qed
  have t: "create_engagement_trend_chart L (frame_select keep dated_posts) = Inl KeyError" for keep
    by (simp add: create_engagement_trend_chart_def in_columns_def frame_select_names getitem_def
          map_of_frame_select bind_result_def)
       (simp add: dated_posts_def)
  obtain m where m': "create_summary_metrics L dated_posts = Inr m" using m by blast
  obtain keep where f': "apply_filters dated_posts sel = Inr (frame_select keep dated_posts)"
    using f by blast
  show ?thesis by (simp add: main_def bind_result_def m' f' t)
qed

lemma rated_top_posts: "create_top_posts_chart L rated_posts ''engagement rate'' top_n = Inl KeyError"
  by (simp add: create_top_posts_chart_def rated_posts_def in_columns_def getitem_def
        bind_result_def)

lemma viewed_scatter: "create_scatter_plot L viewed_posts = Inl ValueError"
  by (simp add: create_scatter_plot_def viewed_posts_def in_columns_def getitem_def
        hover_column_def bind_result_def)

text \<open>
  Claim C2, where the code departs from it. Each builder tests only part of the columns
  it reads. A sheet with a title and a date column loads into a frame that has
  \<open>created date\<close> and no \<open>engagement rate\<close>; on it the trend builder raises
  \<open>KeyError\<close> instead of returning a chart, and so does every run of the page, whatever
  the widgets hold. The ranking builder raises \<open>KeyError\<close> on a frame that has the
  metric and no \<open>impressions\<close>, and the correlation builder raises \<open>ValueError\<close> on
  a frame that has \<open>impressions\<close> and \<open>engagement rate\<close> and no click-through column.
\<close>

theorem chart_builders_raise:
  "load_and_process_data L (Inr dated_sheet) = Some dated_posts \<and>
   create_engagement_trend_chart L dated_posts = Inl KeyError \<and>
   main L dated_posts sel = Inl KeyError \<and>
   create_top_posts_chart L rated_posts ''engagement rate'' top_n = Inl KeyError \<and>
   create_scatter_plot L viewed_posts = Inl ValueError"
  using dated_load dated_trend dated_main rated_top_posts viewed_scatter by simp

text \<open>The same at one library, one state of the widgets and the default count of the ranking.\<close>

theorem chart_builders_raise_witness:
  "load_and_process_data strict_library (Inr dated_sheet) = Some dated_posts \<and>
   create_engagement_trend_chart strict_library dated_posts = Inl KeyError \<and>
   main strict_library dated_posts
     \<lparr>selected_post_type = Str ''All'', date_range = [], search_term = []\<rparr> = Inl KeyError \<and>
   create_top_posts_chart strict_library rated_posts ''engagement rate'' 10 = Inl KeyError \<and>
   create_scatter_plot strict_library viewed_posts = Inl ValueError"
  using chart_builders_raise
          [of strict_library "\<lparr>selected_post_type = Str ''All'', date_range = [], search_term = []\<rparr>" 10]
  by simp



section \<open>Properties of the search\<close>

lemma re_compile_plain:
  assumes "set pat \<inter> set regex_special = {}" and "CHR ''.'' \<notin> set pat"
  shows "re_compile pat = Some (map Lit pat)"
  using assms by (induction pat) auto

lemma match_here_literal:
  "match_here (map Lit pat) s \<longleftrightarrow> (\<exists>ss. py_lower s = py_lower pat @ ss)"
proof (induction pat arbitrary: s)
  case Nil
  then show ?case by (simp add: py_lower_def)
next
  case (Cons a pat)
  show ?case
  proof (cases s)
    case Nil
    then show ?thesis by (simp add: py_lower_def)
  next
    case (Cons c cs)
    have "match_here (map Lit (a # pat)) (c # cs) \<longleftrightarrow>
            lower_char a = lower_char c \<and> (\<exists>ss. py_lower cs = py_lower pat @ ss)"
      using Cons.IH [of cs] by simp
    then show ?thesis using Cons by (auto simp: py_lower_def)
  qed
qed

lemma re_search_literal:
  "re_search (map Lit pat) s \<longleftrightarrow> (\<exists>ps ss. py_lower s = ps @ py_lower pat @ ss)"
proof (induction s)
  case Nil
  have "match_here (map Lit pat) [] \<longleftrightarrow> pat = []" by (cases pat) auto
  then show ?case by (simp add: py_lower_def)
next
  case (Cons c cs)
  have "(\<exists>ps ss. py_lower (c # cs) = ps @ py_lower pat @ ss) \<longleftrightarrow>
          (\<exists>ss. py_lower (c # cs) = py_lower pat @ ss) \<or>
          (\<exists>ps ss. py_lower cs = ps @ py_lower pat @ ss)"
  proof
    assume "\<exists>ps ss. py_lower (c # cs) = ps @ py_lower pat @ ss"
    then obtain ps ss where h: "py_lower (c # cs) = ps @ py_lower pat @ ss" by blast
    show "(\<exists>ss. py_lower (c # cs) = py_lower pat @ ss) \<or>
          (\<exists>ps ss. py_lower cs = ps @ py_lower pat @ ss)"
    proof (cases ps)
      case Nil
      then show ?thesis using h by auto
    next
      case (Cons p ps')
      then have "py_lower cs = ps' @ py_lower pat @ ss" using h by (simp add: py_lower_def)
      then show ?thesis by blast
    qed
  next
    assume "(\<exists>ss. py_lower (c # cs) = py_lower pat @ ss) \<or>
            (\<exists>ps ss. py_lower cs = ps @ py_lower pat @ ss)"
    then show "\<exists>ps ss. py_lower (c # cs) = ps @ py_lower pat @ ss"
    proof
      assume "\<exists>ss. py_lower (c # cs) = py_lower pat @ ss"
      then obtain ss where "py_lower (c # cs) = [] @ py_lower pat @ ss" by auto
      then show ?thesis by blast
    next
      assume "\<exists>ps ss. py_lower cs = ps @ py_lower pat @ ss"
      then obtain ps ss where "py_lower cs = ps @ py_lower pat @ ss" by blast
      then have "py_lower (c # cs) = (lower_char c # ps) @ py_lower pat @ ss"
        by (simp add: py_lower_def)
      then show ?thesis by blast
    qed
  qed
  then show ?case using Cons.IH match_here_literal [of pat "c # cs"] by simp
qed

lemma contains_cell_literal:
  "contains_cell (re_search (map Lit pat)) c =
     (case c of Str s \<Rightarrow> (\<exists>ps ss. py_lower s = ps @ py_lower pat @ ss) | _ \<Rightarrow> False)"
  by (cases c) (simp_all add: re_search_literal)

text \<open>
  Where the search does what a literal search would: for a non-empty term without a
  dot and without another special character of \<open>re\<close>, it keeps exactly the rows
  whose title summary is a text that contains the term, letter case ignored; a row
  whose summary is not a text is never kept.
\<close>

lemma search_plain_term:
  assumes "needle \<noteq> []" and "set needle \<inter> set regex_special = {}" and "CHR ''.'' \<notin> set needle"
    and "map_of display_df ''post title (first sentence)'' = Some (Object summaries)"
  shows "search_posts L display_df needle =
           Inr (frame_select
                  (map (\<lambda>c. case c of Str s \<Rightarrow> (\<exists>ps ss. py_lower s = ps @ py_lower needle @ ss)
                                 | _ \<Rightarrow> False) summaries)
                  display_df)"
proof -
  have "str_contains L needle (Object summaries) =
          Inr (map (contains_cell (re_search (map Lit needle))) summaries)"
    using re_compile_plain [OF assms(2,3)] by (simp add: compile_pattern_def)
  moreover have "contains_cell (re_search (map Lit needle)) =
      (\<lambda>c. case c of Str s \<Rightarrow> (\<exists>ps ss. py_lower s = ps @ py_lower needle @ ss) | _ \<Rightarrow> False)"
    by (rule ext) (rule contains_cell_literal)
  ultimately show ?thesis
    using assms(1,4)
    by (simp add: search_posts_def getitem_def bind_result_def)
qed

lemma search_dot: "search_posts L abc_post ''.'' = Inr abc_post"
  by (simp add: search_posts_def abc_post_def getitem_def bind_result_def regex_special_def
        compile_pattern_def frame_select_def select_rows_def)


lemma search_rejected_pattern:
  assumes "pat \<noteq> []" and "re_compile pat = None" and "regex_search L pat = None"
    and "map_of display_df ''post title (first sentence)'' = Some (Object summaries)"
  shows "search_posts L display_df pat = Inl ReError"
  using assms by (simp add: search_posts_def getitem_def bind_result_def compile_pattern_def)

lemma re_compile_paren: "re_compile ''('' = None"
  by (simp add: regex_special_def)

lemma launch_metrics:
  "create_summary_metrics L launch_posts =
     Inr \<lparr>total_posts = 2, avg_engagement = Some 0, avg_ctr = Some 0, total_impressions = I 0\<rparr>"
  by (simp add: create_summary_metrics_def average_percent_def in_columns_def launch_posts_def
        bind_result_def nrows_def)

lemma launch_filters:
  "apply_filters launch_posts \<lparr>selected_post_type = Str ''All'', date_range = [], search_term = needle\<rparr> =
     Inr launch_posts"
  by (simp add: apply_filters_def filter_post_type_def filter_date_range_def launch_posts_def
        in_columns_def)

lemma launch_charts:
  "create_engagement_trend_chart L launch_posts = Inr None"
  "create_scatter_plot L launch_posts = Inr None"
  "create_top_posts_chart L launch_posts ''engagement rate'' 10 = Inr None"
  "create_top_posts_chart L launch_posts ''click through rate (ctr)'' 10 = Inr None"
  by (simp_all add: create_engagement_trend_chart_def create_scatter_plot_def
        create_top_posts_chart_def in_columns_def launch_posts_def)

lemma launch_table:
  "format_table L launch_posts =
     Inr [(''post title (first sentence)'', Object [Str ''Product Launch Day'', Str ''Weekly notes''])]"
  by (simp add: format_table_def format_column_def select_columns_def available_columns_def
        display_columns_def in_columns_def launch_posts_def bind_result_def)

lemma launch_paren:
  assumes "regex_search L ''('' = None"
  shows "main L launch_posts \<lparr>selected_post_type = Str ''All'', date_range = [], search_term = ''(''\<rparr> =
           Inl ReError"
proof -
  have "search_posts L
          [(''post title (first sentence)'', Object [Str ''Product Launch Day'', Str ''Weekly notes''])]
          ''('' = Inl ReError"
    using assms re_compile_paren
    by (simp add: search_posts_def getitem_def bind_result_def compile_pattern_def)
  then show ?thesis
    by (simp add: main_def launch_metrics launch_filters launch_charts display_table_def
          launch_table bind_result_def)
qed

text \<open>
  Claim C7, where the code departs from it. \<open>str.contains\<close> is called with its default
  \<open>regex=True\<close>, so the text of the search box, which the page asks to fill with
  keywords, is compiled as a regular expression. The term \<open>.\<close> keeps the row whose
  summary is \<open>abc\<close>, in which no dot occurs. A term that \<open>re\<close> rejects, as it does
  the lone parenthesis, raises \<open>re.error\<close>: the search returns no table and the run of
  the page ends there.
\<close>

theorem search_term_is_compiled_as_regex:
  "search_posts L abc_post ''.'' = Inr abc_post \<and> CHR ''.'' \<notin> set (py_lower ''abc'') \<and>
   (regex_search L ''('' = None \<longrightarrow>
      search_posts L abc_post ''('' = Inl ReError \<and>
      main L launch_posts \<lparr>selected_post_type = Str ''All'', date_range = [], search_term = ''(''\<rparr> =
        Inl ReError)"
proof -
  have "CHR ''.'' \<notin> set (py_lower ''abc'')"
    by (simp add: py_lower_def lower_char_def)
  moreover have "search_posts L abc_post ''('' = Inl ReError" if "regex_search L ''('' = None"
    using that re_compile_paren
    by (simp add: search_posts_def abc_post_def getitem_def bind_result_def compile_pattern_def)
  ultimately show ?thesis using search_dot launch_paren by blast
qed

text \<open>The same at a library whose \<open>re\<close> rejects the lone parenthesis.\<close>

theorem search_term_is_compiled_as_regex_witness:
  "regex_search strict_library ''('' = None \<and>
   search_posts strict_library abc_post ''.'' = Inr abc_post \<and>
   search_posts strict_library abc_post ''('' = Inl ReError \<and>
   main strict_library launch_posts
     \<lparr>selected_post_type = Str ''All'', date_range = [], search_term = ''(''\<rparr> = Inl ReError"
proof -
  have "regex_search strict_library ''('' = None" by (simp add: strict_library_def)
  then show ?thesis using search_term_is_compiled_as_regex [of strict_library] by blast
qed



section \<open>Properties of the export\<close>

lemma filter_post_type_names: "map fst (filter_post_type df selected) = map fst df"
  by (simp add: filter_post_type_def frame_select_names split: option.splits)

lemma filter_date_range_names:
  assumes "filter_date_range df chosen = Inr out"
  shows "map fst out = map fst df"
  using assms
  by (auto simp: filter_date_range_def bind_result_def frame_select_names
           split: option.splits sum.splits if_splits)

lemma apply_filters_names:
  assumes "apply_filters loaded sel = Inr df"
  shows "map fst df = map fst loaded"
  using filter_date_range_names [of "filter_post_type loaded (selected_post_type sel)" "date_range sel" df]
        assms filter_post_type_names [of loaded "selected_post_type sel"]
  by (simp add: apply_filters_def)

lemma main_export:
  assumes "main L loaded sel = Inr p"
  shows "\<exists>df. apply_filters loaded sel = Inr df \<and> page_csv p = to_csv df"
proof (cases "apply_filters loaded sel")
  case (Inl e)
  then show ?thesis
    using assms by (simp add: main_def bind_result_def split: sum.splits)
next
  case (Inr df)
  then show ?thesis
    using assms by (auto simp: main_def bind_result_def split: sum.splits)
qed

lemma apply_filters_search:
  "apply_filters loaded (sel\<lparr>search_term := words\<rparr>) = apply_filters loaded sel"
  by (simp add: apply_filters_def)

text \<open>
  Claim C6, as amended. Whenever a run of the page completes, the exported file has the
  column names of the loaded frame as its header and, as its records, the rows of the
  frame after the post type filter and the date range filter, with the values of the
  frame itself (not the formatted texts of the displayed table). The search box has no
  effect on the export: a run with any other search term exports the same file.
\<close>

theorem export_is_filtered_unsearched_frame:
  assumes "main L loaded sel = Inr p"
  shows "\<exists>df. filter_date_range (filter_post_type loaded (selected_post_type sel)) (date_range sel) = Inr df \<and>
              page_csv p = \<lparr>csv_header = map fst loaded, csv_records = frame_rows df\<rparr> \<and>
              (\<forall>words q. main L loaded (sel\<lparr>search_term := words\<rparr>) = Inr q \<longrightarrow> page_csv q = page_csv p)"
proof -
  obtain df where df: "apply_filters loaded sel = Inr df" "page_csv p = to_csv df"
    using main_export [OF assms] by blast
  have "page_csv q = page_csv p" if "main L loaded (sel\<lparr>search_term := words\<rparr>) = Inr q" for words q
    using main_export [OF that] df by (auto simp: apply_filters_search)
  then show ?thesis
    using df apply_filters_names [OF df(1)] by (auto simp: apply_filters_def to_csv_def)
qed

lemma main_launch_search: "main L launch_posts launch_search = Inr launch_page"
proof -
  have f: "apply_filters launch_posts launch_search = Inr launch_posts"
    using launch_filters [of "''launch''"] by (simp add: launch_search_def)
  have d: "display_table L launch_posts ''launch'' =
      Inr [(''post title (first sentence)'', Object [Str ''Product Launch Day''])]"
    by (simp add: display_table_def launch_table bind_result_def search_posts_def getitem_def
          compile_pattern_def regex_special_def lower_char_def upper_letters_def
          lower_letters_def frame_select_def select_rows_def)
  have c: "to_csv launch_posts =
      \<lparr>csv_header = [''post title'', ''post title (first sentence)''],
       csv_records = [[Str ''Product Launch Day'', Str ''Product Launch Day''],
                      [Str ''Weekly notes'', Str ''Weekly notes'']]\<rparr>"
    by (simp add: to_csv_def frame_rows_def nrows_def launch_posts_def upt_rec)
  have w: "search_term launch_search = ''launch''" by (simp add: launch_search_def)
  show ?thesis
    by (simp add: main_def bind_result_def launch_metrics f launch_charts w d c launch_page_def)
qed

text \<open>A run that completes: two posts, no filter, the search term \<open>launch\<close>.\<close>

theorem export_is_filtered_unsearched_frame_witness:
  "main strict_library launch_posts launch_search = Inr launch_page \<and>
   (\<exists>df. filter_date_range (filter_post_type launch_posts (selected_post_type launch_search))
               (date_range launch_search) = Inr df \<and>
         page_csv launch_page = \<lparr>csv_header = map fst launch_posts, csv_records = frame_rows df\<rparr> \<and>
         (\<forall>words q. main strict_library launch_posts (launch_search\<lparr>search_term := words\<rparr>) = Inr q
                      \<longrightarrow> page_csv q = page_csv launch_page))"
  using main_launch_search [of strict_library]
        export_is_filtered_unsearched_frame [OF main_launch_search [of strict_library]]
  by blast

text \<open>
  The claim as stated (the export follows the search as well) fails in that run: the
  search leaves one row in the displayed table, and the export holds two records, the
  second of them the post the search has dropped.
\<close>

theorem export_search_counterexample:
  "main strict_library launch_posts launch_search = Inr launch_page \<and>
   frame_rows (page_table launch_page) = [[Str ''Product Launch Day'']] \<and>
   csv_records (page_csv launch_page) =
     [[Str ''Product Launch Day'', Str ''Product Launch Day''],
      [Str ''Weekly notes'', Str ''Weekly notes'']]"
  by (simp add: main_launch_search) (simp add: launch_page_def frame_rows_def nrows_def)



section \<open>Properties of the displayed table\<close>










































section \<open>Properties of the ranking chart\<close>
























end
